theory Spec2Isabelle
  imports Main
begin

section \<open>The SCAFFOLD baseline entry point (niid\_bench/main\_scaffold.py)\<close>

text \<open>
  The file under verification is a single function \<open>main(cfg)\<close> that wires external
  collaborators together: it renders and prints the configuration, loads the datasets,
  asks Hydra for the output directory, builds the client factory and the server evaluation
  function, instantiates the strategy, runs the simulation and prints the history.

  The collaborators (OmegaConf, Hydra, Flower, and the sibling modules of niid\_bench) are
  not part of the file, so the embedding takes them as parameters: a record \<open>env\<close> of
  functions over an arbitrary world type \<open>'w\<close> (file system, object store, random state,
  whatever the collaborators touch). A collaborator call maps the world to a new world and
  either a result or an exception. The function \<open>main\<close> itself is translated statement by
  statement, in Python's evaluation order (arguments left to right, then the call), as a
  program in a state-and-exception monad whose state is the world plus the trace of
  everything \<open>main\<close> did.
\<close>

subsection \<open>Values, exceptions, events\<close>

text \<open>
  Python values are opaque at this layer: \<open>main\<close> only moves them around. The one value it
  builds is the dict literal passed as \<open>client_resources\<close>.
\<close>

datatype pyval =
    PNone
  | PInt int
  | PStr string
  | PRef nat
  | PDict "(string \<times> pyval) list"

datatype exn = Exn string

text \<open>The collaborator calls that appear in \<open>main\<close>, with their arguments in source order.\<close>

datatype call =
    ToYaml pyval
  | LoadDatasets pyval pyval pyval pyval
  | OutputDir
  | GenClientFn pyval pyval pyval pyval pyval pyval pyval string
  | GenEvaluateFn pyval pyval pyval
  | Instantiate pyval pyval
  | ScaffoldServer pyval pyval
  | ServerConfig pyval
  | StartSimulation pyval pyval pyval pyval pyval pyval

datatype ret =
    RVal pyval
  | RStr string
  | RTriple pyval pyval pyval

text \<open>
  An event of the trace: a collaborator call (world before, call, outcome, world after),
  an attribute read on a configuration node (world, object, attribute name, outcome), or
  a line written to standard output by \<open>print\<close>.
\<close>

datatype 'w event =
    Call 'w call "exn + ret" 'w
  | Read 'w pyval string "exn + pyval"
  | Print string

subsection \<open>The collaborators\<close>

text \<open>
  One field per external function used by \<open>main\<close>, typed by its signature:
  \<^item> \<open>to_yaml\<close>: \<open>OmegaConf.to_yaml(cfg)\<close>;
  \<^item> \<open>cfg_get\<close>: attribute access on a \<open>DictConfig\<close> node (\<open>cfg.dataset\<close>,
    \<open>cfg.dataset.seed\<close>, ...), a read of the current world that may raise;
  \<^item> \<open>load_datasets\<close>: \<open>niid_bench.dataset.load_datasets\<close>, keyword arguments
    \<open>config, num_clients, val_ratio, seed\<close>, returning three values;
  \<^item> \<open>output_dir\<close>: \<open>HydraConfig.get().runtime.output_dir\<close>, a string;
  \<^item> \<open>gen_client_fn\<close>: \<open>niid_bench.client_scaffold.gen_client_fn\<close>, arguments
    \<open>trainloaders, valloaders, num_epochs, learning_rate, model, momentum, weight_decay,
    client_cv_dir\<close>;
  \<^item> \<open>gen_evaluate_fn\<close>: \<open>server.gen_evaluate_fn(testloader, device, model)\<close>;
  \<^item> \<open>instantiate\<close>: \<open>hydra.utils.instantiate(cfg.strategy, evaluate_fn=...)\<close>;
  \<^item> \<open>scaffold_server\<close>: \<open>server.ScaffoldServer(strategy=..., model=...)\<close>;
  \<^item> \<open>server_config\<close>: \<open>fl.server.ServerConfig(num_rounds=...)\<close>;
  \<^item> \<open>start_simulation\<close>: \<open>fl.simulation.start_simulation\<close>, keyword arguments
    \<open>server, client_fn, num_clients, config, client_resources, strategy\<close>;
  \<^item> \<open>history_str\<close>: the text \<open>print\<close> obtains from \<open>str(history)\<close>.
\<close>

record 'w env =
  to_yaml :: "pyval \<Rightarrow> 'w \<Rightarrow> (exn + string) \<times> 'w"
  cfg_get :: "'w \<Rightarrow> pyval \<Rightarrow> string \<Rightarrow> exn + pyval"
  load_datasets :: "pyval \<Rightarrow> pyval \<Rightarrow> pyval \<Rightarrow> pyval \<Rightarrow> 'w
                     \<Rightarrow> (exn + pyval \<times> pyval \<times> pyval) \<times> 'w"
  output_dir :: "'w \<Rightarrow> (exn + string) \<times> 'w"
  gen_client_fn :: "pyval \<Rightarrow> pyval \<Rightarrow> pyval \<Rightarrow> pyval \<Rightarrow> pyval \<Rightarrow> pyval \<Rightarrow> pyval \<Rightarrow> string
                     \<Rightarrow> 'w \<Rightarrow> (exn + pyval) \<times> 'w"
  gen_evaluate_fn :: "pyval \<Rightarrow> pyval \<Rightarrow> pyval \<Rightarrow> 'w \<Rightarrow> (exn + pyval) \<times> 'w"
  instantiate :: "pyval \<Rightarrow> pyval \<Rightarrow> 'w \<Rightarrow> (exn + pyval) \<times> 'w"
  scaffold_server :: "pyval \<Rightarrow> pyval \<Rightarrow> 'w \<Rightarrow> (exn + pyval) \<times> 'w"
  server_config :: "pyval \<Rightarrow> 'w \<Rightarrow> (exn + pyval) \<times> 'w"
  start_simulation :: "pyval \<Rightarrow> pyval \<Rightarrow> pyval \<Rightarrow> pyval \<Rightarrow> pyval \<Rightarrow> pyval
                     \<Rightarrow> 'w \<Rightarrow> (exn + pyval) \<times> 'w"
  history_str :: "pyval \<Rightarrow> string"

subsection \<open>The state-and-exception monad\<close>

record 'w state =
  world :: 'w
  trace :: "'w event list"

type_synonym ('w, 'a) prog = "'w state \<Rightarrow> (exn + 'a) \<times> 'w state"

definition init :: "'w \<Rightarrow> 'w state" where
  "init w = \<lparr>world = w, trace = []\<rparr>"

text \<open>Sequencing: an exception of the first part ends the program; nothing catches it.\<close>

definition bnd :: "('w, 'a) prog \<Rightarrow> ('a \<Rightarrow> ('w, 'b) prog) \<Rightarrow> ('w, 'b) prog" where
  "bnd m f s = (case m s of
                  (Inl e, s') \<Rightarrow> (Inl e, s')
                | (Inr x, s') \<Rightarrow> f x s')"

text \<open>A collaborator call: run it on the current world, record the call and its outcome.\<close>

definition invoke :: "call \<Rightarrow> ('a \<Rightarrow> ret) \<Rightarrow> ('w \<Rightarrow> (exn + 'a) \<times> 'w) \<Rightarrow> ('w, 'a) prog" where
  "invoke c tag f s =
     (case f (world s) of
        (r, w') \<Rightarrow> (r, \<lparr>world = w',
                        trace = trace s @ [Call (world s) c (map_sum id tag r) w']\<rparr>))"

text \<open>An attribute read \<open>obj.name\<close>: the world is left as it is.\<close>

definition attr :: "'w env \<Rightarrow> pyval \<Rightarrow> string \<Rightarrow> ('w, pyval) prog" where
  "attr env obj name s =
     (cfg_get env (world s) obj name,
      \<lparr>world = world s,
       trace = trace s @ [Read (world s) obj name (cfg_get env (world s) obj name)]\<rparr>)"

text \<open>
  \<open>print(a, b, ...)\<close> with string arguments writes them separated by one space and ends
  the line.
\<close>

fun sep_join :: "string list \<Rightarrow> string" where
  "sep_join [] = []"
| "sep_join [a] = a"
| "sep_join (a # b # bs) = a @ '' '' @ sep_join (b # bs)"

definition py_print :: "string list \<Rightarrow> ('w, unit) prog" where
  "py_print args s =
     (Inr (), \<lparr>world = world s,
               trace = trace s @ [Print (sep_join args @ [CHR 0x0A])]\<rparr>)"

text \<open>
  \<open>os.path.join(a, b)\<close> of \<open>posixpath\<close>, for two string arguments: an absolute \<open>b\<close>
  replaces \<open>a\<close>; otherwise \<open>b\<close> is appended, with a separator unless \<open>a\<close> is empty or
  already ends with one.
\<close>

definition path_join :: "string \<Rightarrow> string \<Rightarrow> string" where
  "path_join a b =
     (if take 1 b = ''/'' then b
      else if a = [] \<or> last a = CHR ''/'' then a @ b
      else a @ ''/'' @ b)"

definition notice :: string where
  "notice = ''Outputs and Client cvs for scaffold saved to: ''"

definition triple :: "pyval \<times> pyval \<times> pyval \<Rightarrow> ret" where
  "triple t = (case t of (a, b, c) \<Rightarrow> RTriple a b c)"

subsection \<open>The function \<open>main\<close>\<close>

text \<open>
  The function \<open>main\<close> as it is written, lines 13 to 84 of the source: what Hydra calls
  the task function. (The decorator of line 12 and the call of lines 98 and 99 follow
  below, as \<open>hydra_main\<close>.) One definition per numbered section of the function body,
  each a sequence of the attribute reads and calls of that section in evaluation order.
  The part after the simulation (lines 87 to 95) is a comment block with no statement.

  What is taken for granted about Python itself: writing to standard output succeeds;
  \<open>str(history)\<close> is a function of the history object; the names \<open>load_datasets\<close>,
  \<open>gen_client_fn\<close>, \<open>server.gen_evaluate_fn\<close> and the like resolve; \<open>os.path\<close> is
  \<open>posixpath\<close>. Everything else that can fail (rendering the configuration, resolving an
  attribute of it, asking Hydra for the output directory, every collaborator call) is a
  step that returns a result or an exception.
\<close>

text \<open>Line 22: \<open>print(OmegaConf.to_yaml(cfg))\<close>.\<close>

definition print_config :: "'w env \<Rightarrow> pyval \<Rightarrow> ('w, unit) prog" where
  "print_config env cfg =
     bnd (invoke (ToYaml cfg) RStr (to_yaml env cfg)) (\<lambda>yaml.
     py_print [yaml])"

text \<open>Lines 31 to 36: the call of \<open>load_datasets\<close> and the unpacking of its result.\<close>

definition prepare_dataset :: "'w env \<Rightarrow> pyval \<Rightarrow> ('w, pyval \<times> pyval \<times> pyval) prog" where
  "prepare_dataset env cfg =
     bnd (attr env cfg ''dataset'') (\<lambda>dataset.
     bnd (attr env cfg ''num_clients'') (\<lambda>num_clients.
     bnd (attr env cfg ''dataset'') (\<lambda>dataset_v.
     bnd (attr env dataset_v ''val_split'') (\<lambda>val_split.
     bnd (attr env cfg ''dataset'') (\<lambda>dataset_s.
     bnd (attr env dataset_s ''seed'') (\<lambda>seed.
     invoke (LoadDatasets dataset num_clients val_split seed) triple
       (load_datasets env dataset num_clients val_split seed)))))))"

text \<open>Lines 38 and 39: \<open>save_path\<close> and the first notice.\<close>

definition locate_outputs :: "'w env \<Rightarrow> ('w, string) prog" where
  "locate_outputs env =
     bnd (invoke OutputDir RStr (output_dir env)) (\<lambda>save_path.
     bnd (py_print [notice, save_path]) (\<lambda>_.
     (\<lambda>s. (Inr save_path, s))))"

text \<open>Lines 41 to 55: \<open>client_cv_dir\<close> and the call of \<open>gen_client_fn\<close>.\<close>

definition define_clients ::
  "'w env \<Rightarrow> pyval \<Rightarrow> pyval \<Rightarrow> pyval \<Rightarrow> string \<Rightarrow> ('w, pyval) prog" where
  "define_clients env cfg trainloaders valloaders save_path =
     (let client_cv_dir = path_join save_path ''client_cvs'' in
      bnd (attr env cfg ''num_epochs'') (\<lambda>num_epochs.
      bnd (attr env cfg ''learning_rate'') (\<lambda>learning_rate.
      bnd (attr env cfg ''model'') (\<lambda>model.
      bnd (attr env cfg ''momentum'') (\<lambda>momentum.
      bnd (attr env cfg ''weight_decay'') (\<lambda>weight_decay.
      invoke (GenClientFn trainloaders valloaders num_epochs learning_rate model
                momentum weight_decay client_cv_dir) RVal
        (gen_client_fn env trainloaders valloaders num_epochs learning_rate model
                momentum weight_decay client_cv_dir)))))))"

text \<open>Lines 57 and 58: \<open>device\<close> and the call of \<open>server.gen_evaluate_fn\<close>.\<close>

definition define_evaluate :: "'w env \<Rightarrow> pyval \<Rightarrow> pyval \<Rightarrow> ('w, pyval) prog" where
  "define_evaluate env cfg testloader =
     bnd (attr env cfg ''server_device'') (\<lambda>device.
     bnd (attr env cfg ''model'') (\<lambda>model.
     invoke (GenEvaluateFn testloader device model) RVal
       (gen_evaluate_fn env testloader device model)))"

text \<open>Lines 64 to 67: \<open>instantiate(cfg.strategy, evaluate_fn=evaluate_fn)\<close>.\<close>

definition define_strategy :: "'w env \<Rightarrow> pyval \<Rightarrow> pyval \<Rightarrow> ('w, pyval) prog" where
  "define_strategy env cfg evaluate_fn =
     bnd (attr env cfg ''strategy'') (\<lambda>strategy_cfg.
     invoke (Instantiate strategy_cfg evaluate_fn) RVal
       (instantiate env strategy_cfg evaluate_fn))"

text \<open>
  Lines 71 to 81: the arguments of \<open>start_simulation\<close> are evaluated in the order written
  (the server object, \<open>client_fn\<close>, the client count, the server configuration, the
  resources dict, the strategy), then the simulation is started.
\<close>

definition run_simulation :: "'w env \<Rightarrow> pyval \<Rightarrow> pyval \<Rightarrow> pyval \<Rightarrow> ('w, pyval) prog" where
  "run_simulation env cfg strategy client_fn =
     bnd (attr env cfg ''model'') (\<lambda>model.
     bnd (invoke (ScaffoldServer strategy model) RVal
            (scaffold_server env strategy model)) (\<lambda>srv.
     bnd (attr env cfg ''num_clients'') (\<lambda>num_clients.
     bnd (attr env cfg ''num_rounds'') (\<lambda>num_rounds.
     bnd (invoke (ServerConfig num_rounds) RVal (server_config env num_rounds)) (\<lambda>config.
     bnd (attr env cfg ''client_resources'') (\<lambda>res_c.
     bnd (attr env res_c ''num_cpus'') (\<lambda>num_cpus.
     bnd (attr env cfg ''client_resources'') (\<lambda>res_g.
     bnd (attr env res_g ''num_gpus'') (\<lambda>num_gpus.
     invoke (StartSimulation srv client_fn num_clients config
               (PDict [(''num_cpus'', num_cpus), (''num_gpus'', num_gpus)]) strategy) RVal
       (start_simulation env srv client_fn num_clients config
               (PDict [(''num_cpus'', num_cpus), (''num_gpus'', num_gpus)]) strategy))))))))))"

text \<open>Lines 83 and 84: the history and the second notice.\<close>

definition report :: "'w env \<Rightarrow> pyval \<Rightarrow> string \<Rightarrow> ('w, unit) prog" where
  "report env history save_path =
     bnd (py_print [history_str env history]) (\<lambda>_.
     py_print [notice, save_path])"

definition main :: "'w env \<Rightarrow> pyval \<Rightarrow> ('w, unit) prog" where
  "main env cfg =
     bnd (print_config env cfg) (\<lambda>_.
     bnd (prepare_dataset env cfg) (\<lambda>loaders.
     case loaders of (trainloaders, valloaders, testloader) \<Rightarrow>
     bnd (locate_outputs env) (\<lambda>save_path.
     bnd (define_clients env cfg trainloaders valloaders save_path) (\<lambda>client_fn.
     bnd (define_evaluate env cfg testloader) (\<lambda>evaluate_fn.
     bnd (define_strategy env cfg evaluate_fn) (\<lambda>strategy.
     bnd (run_simulation env cfg strategy client_fn) (\<lambda>history.
     report env history save_path)))))))"

subsection \<open>The decorated function and the entry point\<close>





subsection \<open>Reading a trace\<close>

text \<open>The collaborator calls of a trace, in order, and the lines printed, in order.\<close>

fun calls :: "'w event list \<Rightarrow> call list" where
  "calls [] = []"
| "calls (Call _ c _ _ # es) = c # calls es"
| "calls (Read _ _ _ _ # es) = calls es"
| "calls (Print _ # es) = calls es"

fun printed :: "'w event list \<Rightarrow> string list" where
  "printed [] = []"
| "printed (Print l # es) = l # printed es"
| "printed (Call _ _ _ _ # es) = printed es"
| "printed (Read _ _ _ _ # es) = printed es"

text \<open>The exception an event ended with, if it did.\<close>

fun raised :: "'w event \<Rightarrow> exn option" where
  "raised (Call _ _ (Inl e) _) = Some e"
| "raised (Call _ _ (Inr _) _) = None"
| "raised (Read _ _ _ (Inl e)) = Some e"
| "raised (Read _ _ _ (Inr _)) = None"
| "raised (Print _) = None"

text \<open>
  How a run may end, read off the events it added: a normal return adds no raising event;
  an exception \<open>e\<close> is what the last event raised, and no event before it raised.
\<close>

definition outcome_ok :: "exn + 'a \<Rightarrow> 'w event list \<Rightarrow> bool" where
  "outcome_ok r es =
     (case r of
        Inr _ \<Rightarrow> list_all (\<lambda>ev. raised ev = None) es
      | Inl e \<Rightarrow> es \<noteq> [] \<and> list_all (\<lambda>ev. raised ev = None) (butlast es)
                 \<and> raised (last es) = Some e)"

text \<open>What a call does when the collaborators of \<open>env\<close> perform it on world \<open>w\<close>.\<close>

fun perform :: "'w env \<Rightarrow> call \<Rightarrow> 'w \<Rightarrow> (exn + ret) \<times> 'w" where
  "perform env (ToYaml c) w = apfst (map_sum id RStr) (to_yaml env c w)"
| "perform env (LoadDatasets d n v sd) w =
     apfst (map_sum id triple) (load_datasets env d n v sd w)"
| "perform env OutputDir w = apfst (map_sum id RStr) (output_dir env w)"
| "perform env (GenClientFn tr vl ne lr m mo wd dir) w =
     apfst (map_sum id RVal) (gen_client_fn env tr vl ne lr m mo wd dir w)"
| "perform env (GenEvaluateFn te dev m) w =
     apfst (map_sum id RVal) (gen_evaluate_fn env te dev m w)"
| "perform env (Instantiate sc ef) w = apfst (map_sum id RVal) (instantiate env sc ef w)"
| "perform env (ScaffoldServer st m) w = apfst (map_sum id RVal) (scaffold_server env st m w)"
| "perform env (ServerConfig nr) w = apfst (map_sum id RVal) (server_config env nr w)"
| "perform env (StartSimulation srv cf n conf res st) w =
     apfst (map_sum id RVal) (start_simulation env srv cf n conf res st w)"

text \<open>
  A list of events is genuine from world \<open>w\<close> when every call in it starts in the world
  the previous call left, its recorded outcome and next world are what the collaborator
  gives there, and every read records what the configuration holds in the world it is
  made in. \<open>final w es\<close> is the world after the events.
\<close>

fun genuine :: "'w env \<Rightarrow> 'w \<Rightarrow> 'w event list \<Rightarrow> bool" where
  "genuine env w [] = True"
| "genuine env w (Call a c out b # es) =
     (a = w \<and> perform env c w = (out, b) \<and> genuine env b es)"
| "genuine env w (Read a obj name out # es) =
     (a = w \<and> cfg_get env w obj name = out \<and> genuine env w es)"
| "genuine env w (Print _ # es) = genuine env w es"

fun final :: "'w \<Rightarrow> 'w event list \<Rightarrow> 'w" where
  "final w [] = w"
| "final w (Call _ _ _ b # es) = final b es"
| "final w (Read _ _ _ _ # es) = final w es"
| "final w (Print _ # es) = final w es"

text \<open>
  A program tracks its effects when every run of it extends the trace by a genuine list of
  events that accounts for the whole change of the world and for the way the run ended.
\<close>

definition tracks :: "'w env \<Rightarrow> ('w, 'a) prog \<Rightarrow> bool" where
  "tracks env m =
     (\<forall>s r s'. m s = (r, s') \<longrightarrow>
        (\<exists>es. trace s' = trace s @ es \<and> world s' = final (world s) es
              \<and> genuine env (world s) es \<and> outcome_ok r es))"

text \<open>
  The call log of a trace: the collaborator calls with their outcomes, in order, without
  the worlds, the reads and the printed lines.
\<close>

fun log :: "'w event list \<Rightarrow> (call \<times> (exn + ret)) list" where
  "log [] = []"
| "log (Call _ c out _ # es) = (c, out) # log es"
| "log (Read _ _ _ _ # es) = log es"
| "log (Print _ # es) = log es"

text \<open>
  A call log agrees with a script (a list of calls, each with the result it gives when it
  succeeds) when it is the script cut at some point: either a beginning of the script with
  every call succeeding as scripted, or such a beginning followed by the next scripted
  call raising.
\<close>

fun agrees :: "(call \<times> (exn + ret)) list \<Rightarrow> (call \<times> ret) list \<Rightarrow> bool" where
  "agrees [] L = True"
| "agrees ((c, Inr v) # lg) ((c', v') # L) = (c = c' \<and> v = v' \<and> agrees lg L)"
| "agrees ((c, Inl e) # lg) ((c', v') # L) = (c = c' \<and> lg = [])"
| "agrees (x # lg) [] = False"

text \<open>The position of each collaborator call in the text of \<open>main\<close>.\<close>

fun rank :: "call \<Rightarrow> nat" where
  "rank (ToYaml _) = 0"
| "rank (LoadDatasets _ _ _ _) = 1"
| "rank OutputDir = 2"
| "rank (GenClientFn _ _ _ _ _ _ _ _) = 3"
| "rank (GenEvaluateFn _ _ _) = 4"
| "rank (Instantiate _ _) = 5"
| "rank (ScaffoldServer _ _) = 6"
| "rank (ServerConfig _) = 7"
| "rank (StartSimulation _ _ _ _ _ _) = 8"

text \<open>
  The rest of \<open>main\<close> from a given section on, with the local variables bound so far as
  parameters. These only name the sub-terms of \<open>main\<close> (lemma \<open>main_unfold\<close>).
\<close>

definition from_simulation ::
  "'w env \<Rightarrow> pyval \<Rightarrow> string \<Rightarrow> pyval \<Rightarrow> pyval \<Rightarrow> ('w, unit) prog" where
  "from_simulation env cfg save_path client_fn strategy =
     bnd (run_simulation env cfg strategy client_fn) (\<lambda>history.
     report env history save_path)"

definition from_strategy ::
  "'w env \<Rightarrow> pyval \<Rightarrow> string \<Rightarrow> pyval \<Rightarrow> pyval \<Rightarrow> ('w, unit) prog" where
  "from_strategy env cfg save_path client_fn evaluate_fn =
     bnd (define_strategy env cfg evaluate_fn) (\<lambda>strategy.
     from_simulation env cfg save_path client_fn strategy)"

definition from_evaluate ::
  "'w env \<Rightarrow> pyval \<Rightarrow> pyval \<Rightarrow> string \<Rightarrow> pyval \<Rightarrow> ('w, unit) prog" where
  "from_evaluate env cfg testloader save_path client_fn =
     bnd (define_evaluate env cfg testloader) (\<lambda>evaluate_fn.
     from_strategy env cfg save_path client_fn evaluate_fn)"

definition from_clients ::
  "'w env \<Rightarrow> pyval \<Rightarrow> pyval \<Rightarrow> pyval \<Rightarrow> pyval \<Rightarrow> string \<Rightarrow> ('w, unit) prog" where
  "from_clients env cfg trainloaders valloaders testloader save_path =
     bnd (define_clients env cfg trainloaders valloaders save_path) (\<lambda>client_fn.
     from_evaluate env cfg testloader save_path client_fn)"

definition from_outputs ::
  "'w env \<Rightarrow> pyval \<Rightarrow> pyval \<Rightarrow> pyval \<Rightarrow> pyval \<Rightarrow> ('w, unit) prog" where
  "from_outputs env cfg trainloaders valloaders testloader =
     bnd (locate_outputs env) (\<lambda>save_path.
     from_clients env cfg trainloaders valloaders testloader save_path)"

definition from_dataset :: "'w env \<Rightarrow> pyval \<Rightarrow> ('w, unit) prog" where
  "from_dataset env cfg =
     bnd (prepare_dataset env cfg) (\<lambda>loaders.
     case loaders of (trainloaders, valloaders, testloader) \<Rightarrow>
       from_outputs env cfg trainloaders valloaders testloader)"

text \<open>
  The values of a completed run: the worlds between the collaborator calls, and every value
  read, returned or bound on the way. \<open>script env cfg v\<close> is the trace of a completed
  run with these values.
\<close>

record 'w vals =
  w_initial :: 'w
  the_yaml :: string
  w_rendered :: 'w
  the_dataset :: pyval
  the_num_clients :: pyval
  the_dataset_v :: pyval
  the_val_split :: pyval
  the_dataset_s :: pyval
  the_seed :: pyval
  w_loaded :: 'w
  the_trainloaders :: pyval
  the_valloaders :: pyval
  the_testloader :: pyval
  w_located :: 'w
  the_save_path :: string
  the_num_epochs :: pyval
  the_learning_rate :: pyval
  the_model_c :: pyval
  the_momentum :: pyval
  the_weight_decay :: pyval
  w_clients :: 'w
  the_client_fn :: pyval
  the_device :: pyval
  the_model_e :: pyval
  w_evaluate :: 'w
  the_evaluate_fn :: pyval
  the_strategy_cfg :: pyval
  w_strategy :: 'w
  the_strategy :: pyval
  the_model_s :: pyval
  the_server :: pyval
  w_server :: 'w
  the_num_clients_s :: pyval
  the_num_rounds :: pyval
  the_config :: pyval
  w_config :: 'w
  the_res_c :: pyval
  the_num_cpus :: pyval
  the_res_g :: pyval
  the_num_gpus :: pyval
  w_final :: 'w
  the_history :: pyval

definition script :: "'w env \<Rightarrow> pyval \<Rightarrow> 'w vals \<Rightarrow> 'w event
          list" where
  "script env cfg v =
     [Call (w_initial v) (ToYaml cfg) (Inr (RStr (the_yaml v))) (w_rendered v),
      Print ((the_yaml v) @ [CHR 0x0A]),
      Read (w_rendered v) cfg ''dataset'' (Inr (the_dataset v)),
      Read (w_rendered v) cfg ''num_clients'' (Inr (the_num_clients v)),
      Read (w_rendered v) cfg ''dataset'' (Inr (the_dataset_v v)),
      Read (w_rendered v) (the_dataset_v v) ''val_split'' (Inr (the_val_split v)),
      Read (w_rendered v) cfg ''dataset'' (Inr (the_dataset_s v)),
      Read (w_rendered v) (the_dataset_s v) ''seed'' (Inr (the_seed v)),
      Call (w_rendered v) (LoadDatasets (the_dataset v) (the_num_clients v) (the_val_split v)
          (the_seed v)) (Inr (RTriple (the_trainloaders v) (the_valloaders v) (the_testloader
          v))) (w_loaded v),
      Call (w_loaded v) OutputDir (Inr (RStr (the_save_path v))) (w_located v),
      Print (notice @ '' '' @ (the_save_path v) @ [CHR 0x0A]),
      Read (w_located v) cfg ''num_epochs'' (Inr (the_num_epochs v)),
      Read (w_located v) cfg ''learning_rate'' (Inr (the_learning_rate v)),
      Read (w_located v) cfg ''model'' (Inr (the_model_c v)),
      Read (w_located v) cfg ''momentum'' (Inr (the_momentum v)),
      Read (w_located v) cfg ''weight_decay'' (Inr (the_weight_decay v)),
      Call (w_located v) (GenClientFn (the_trainloaders v) (the_valloaders v) (the_num_epochs
          v) (the_learning_rate v) (the_model_c v) (the_momentum v) (the_weight_decay v)
          (path_join (the_save_path v) ''client_cvs''))
        (Inr (RVal (the_client_fn v))) (w_clients v),
      Read (w_clients v) cfg ''server_device'' (Inr (the_device v)),
      Read (w_clients v) cfg ''model'' (Inr (the_model_e v)),
      Call (w_clients v) (GenEvaluateFn (the_testloader v) (the_device v) (the_model_e v)) (Inr
          (RVal (the_evaluate_fn v))) (w_evaluate v),
      Read (w_evaluate v) cfg ''strategy'' (Inr (the_strategy_cfg v)),
      Call (w_evaluate v) (Instantiate (the_strategy_cfg v) (the_evaluate_fn v)) (Inr (RVal
          (the_strategy v))) (w_strategy v),
      Read (w_strategy v) cfg ''model'' (Inr (the_model_s v)),
      Call (w_strategy v) (ScaffoldServer (the_strategy v) (the_model_s v)) (Inr (RVal
          (the_server v))) (w_server v),
      Read (w_server v) cfg ''num_clients'' (Inr (the_num_clients_s v)),
      Read (w_server v) cfg ''num_rounds'' (Inr (the_num_rounds v)),
      Call (w_server v) (ServerConfig (the_num_rounds v)) (Inr (RVal (the_config v))) (w_config
          v),
      Read (w_config v) cfg ''client_resources'' (Inr (the_res_c v)),
      Read (w_config v) (the_res_c v) ''num_cpus'' (Inr (the_num_cpus v)),
      Read (w_config v) cfg ''client_resources'' (Inr (the_res_g v)),
      Read (w_config v) (the_res_g v) ''num_gpus'' (Inr (the_num_gpus v)),
      Call (w_config v) (StartSimulation (the_server v) (the_client_fn v) (the_num_clients_s v)
          (the_config v)
        (PDict [(''num_cpus'', (the_num_cpus v)), (''num_gpus'', (the_num_gpus v))])
          (the_strategy v)) (Inr (RVal (the_history v))) (w_final v),
      Print (history_str env (the_history v) @ [CHR 0x0A]),
      Print (notice @ '' '' @ (the_save_path v) @ [CHR 0x0A])]"

text \<open>The Python values among the arguments of a call.\<close>

fun args_of :: "call \<Rightarrow> pyval list" where
  "args_of (ToYaml c) = [c]"
| "args_of (LoadDatasets d n v sd) = [d, n, v, sd]"
| "args_of OutputDir = []"
| "args_of (GenClientFn tr vl ne lr m mo wd dir) = [tr, vl, ne, lr, m, mo, wd]"
| "args_of (GenEvaluateFn te dev m) = [te, dev, m]"
| "args_of (Instantiate sc ef) = [sc, ef]"
| "args_of (ScaffoldServer st m) = [st, m]"
| "args_of (ServerConfig nr) = [nr]"
| "args_of (StartSimulation srv cf n conf res st) = [srv, cf, n, conf, res, st]"

text \<open>The values that the successful attribute reads of a trace produced.\<close>

fun read_values :: "'w event list \<Rightarrow> pyval list" where
  "read_values [] = []"
| "read_values (Read _ _ _ (Inr x) # es) = x # read_values es"
| "read_values (Read _ _ _ (Inl _) # es) = read_values es"
| "read_values (Call _ _ _ _ # es) = read_values es"
| "read_values (Print _ # es) = read_values es"

fun is_gen_client_fn :: "call \<Rightarrow> bool" where
  "is_gen_client_fn (GenClientFn _ _ _ _ _ _ _ _) = True"
| "is_gen_client_fn _ = False"

fun is_gen_evaluate_fn :: "call \<Rightarrow> bool" where
  "is_gen_evaluate_fn (GenEvaluateFn _ _ _) = True"
| "is_gen_evaluate_fn _ = False"

text \<open>
  A call respects the roles of the three loaders when the client factory gets the training
  and validation loaders in its first two parameters and the evaluation-function factory
  gets the test loader in its first.
\<close>

fun loaders_ok :: "pyval \<Rightarrow> pyval \<Rightarrow> pyval \<Rightarrow> call \<Rightarrow> bool" where
  "loaders_ok tr vl te (GenClientFn a b _ _ _ _ _ _) = (a = tr \<and> b = vl)"
| "loaders_ok tr vl te (GenEvaluateFn a _ _) = (a = te)"
| "loaders_ok tr vl te _ = True"

text \<open>The values that the collaborator calls of a trace returned as single objects.\<close>

fun returned :: "'w event list \<Rightarrow> pyval list" where
  "returned [] = []"
| "returned (Call _ _ (Inr (RVal x)) _ # es) = x # returned es"
| "returned (Call _ _ (Inr (RStr _)) _ # es) = returned es"
| "returned (Call _ _ (Inr (RTriple _ _ _)) _ # es) = returned es"
| "returned (Call _ _ (Inl _) _ # es) = returned es"
| "returned (Read _ _ _ _ # es) = returned es"
| "returned (Print _ # es) = returned es"

fun is_dict :: "pyval \<Rightarrow> bool" where
  "is_dict (PDict _) = True"
| "is_dict _ = False"



text \<open>
  A value is fresh in a trace when it is not the configuration object, not a value read
  from the configuration, not an object that a collaborator call returned, and not a
  dict: nothing that \<open>main\<close> passes around except as a loader.
\<close>

definition fresh :: "pyval \<Rightarrow> 'w event list \<Rightarrow> pyval \<Rightarrow> bool" where
  "fresh cfg es x =
     (x \<noteq> cfg \<and> x \<notin> set (read_values es) \<and> x \<notin> set (returned es) \<and> \<not> is_dict x)"



subsection \<open>A concrete configuration and concrete collaborators\<close>

text \<open>
  A small instance on which the theorems below are exercised: the world counts the
  collaborator calls made so far, the configuration is a nested dict, and every
  collaborator returns a fresh handle.
\<close>

definition demo_cfg :: pyval where
  "demo_cfg = PDict
     [(''dataset'', PDict [(''name'', PStr ''cifar10''), (''val_split'', PInt 0),
                           (''seed'', PInt 42)]),
      (''num_clients'', PInt 2),
      (''num_rounds'', PInt 1),
      (''num_epochs'', PInt 5),
      (''learning_rate'', PStr ''0.01''),
      (''momentum'', PStr ''0.9''),
      (''weight_decay'', PStr ''0.00001''),
      (''model'', PDict [(''_target_'', PStr ''niid_bench.models.CNN'')]),
      (''server_device'', PStr ''cpu''),
      (''client_resources'', PDict [(''num_cpus'', PInt 4), (''num_gpus'', PInt 0)]),
      (''strategy'', PDict [(''_target_'', PStr ''niid_bench.strategy.ScaffoldStrategy'')])]"

fun demo_get :: "pyval \<Rightarrow> string \<Rightarrow> exn + pyval" where
  "demo_get (PDict kvs) name =
     (case map_of kvs name of
        Some v \<Rightarrow> Inr v
      | None \<Rightarrow> Inl (Exn ''ConfigAttributeError''))"
| "demo_get _ name = Inl (Exn ''AttributeError'')"

definition demo_env :: "nat env" where
  "demo_env =
     \<lparr>to_yaml = (\<lambda>c w. (Inr ''num_clients: 2'', Suc w)),
      cfg_get = (\<lambda>w. demo_get),
      load_datasets = (\<lambda>d n v sd w. (Inr (PRef 1, PRef 2, PRef 3), Suc w)),
      output_dir = (\<lambda>w. (Inr ''outputs/run1'', Suc w)),
      gen_client_fn = (\<lambda>tr vl ne lr m mo wd dir w. (Inr (PRef 4), Suc w)),
      gen_evaluate_fn = (\<lambda>te dev m w. (Inr (PRef 5), Suc w)),
      instantiate = (\<lambda>sc ef w. (Inr (PRef 6), Suc w)),
      scaffold_server = (\<lambda>st m w. (Inr (PRef 7), Suc w)),
      server_config = (\<lambda>nr w. (Inr (PRef 8), Suc w)),
      start_simulation = (\<lambda>srv cf n conf res st w. (Inr (PRef 9), Suc w)),
      history_str = (\<lambda>h. ''History (loss, centralized)'')\<rparr>"



text \<open>The two runs used as examples below.\<close>

definition demo_run :: "(exn + unit) \<times> nat state" where
  "demo_run = main demo_env demo_cfg (init 0)"


section \<open>Lemmas\<close>

subsection \<open>Traces\<close>

lemma calls_append [simp]: "calls (es @ fs) = calls es @ calls fs"
  by (induction es rule: calls.induct) auto

lemma printed_append [simp]: "printed (es @ fs) = printed es @ printed fs"
  by (induction es rule: printed.induct) auto

lemma final_append [simp]: "final w (es @ fs) = final (final w es) fs"
  by (induction w es rule: final.induct) auto

lemma genuine_append [simp]:
  "genuine env w (es @ fs) \<longleftrightarrow> genuine env w es \<and> genuine env (final w es) fs"
  by (induction env w es rule: genuine.induct) auto

lemma call_in_calls: "Call a c out b \<in> set es \<Longrightarrow> c \<in> set (calls es)"
  by (induction es rule: calls.induct) auto

lemma outcome_ok_append:
  assumes "list_all (\<lambda>ev. raised ev = None) es" and "outcome_ok r fs"
  shows "outcome_ok r (es @ fs)"
proof (cases r)
  case (Inl e)
  with assms(2) have fs: "fs \<noteq> []" "list_all (\<lambda>ev. raised ev = None) (butlast fs)"
    "raised (last fs) = Some e"
    by (simp_all add: outcome_ok_def)
  from fs(1) have "butlast (es @ fs) = es @ butlast fs" "last (es @ fs) = last fs"
    by (simp_all add: butlast_append)
  with fs assms(1) Inl show ?thesis
    by (simp add: outcome_ok_def)
next
  case (Inr x)
  with assms show ?thesis
    by (simp add: outcome_ok_def)
qed

subsection \<open>Every program built from the primitives tracks its effects\<close>

lemma tracks_bnd:
  assumes m: "tracks env m" and f: "\<And>x. tracks env (f x)"
  shows "tracks env (bnd m f)"
  unfolding tracks_def
proof (intro allI impI)
  fix s r s'
  assume run: "bnd m f s = (r, s')"
  obtain r1 s1 where m1: "m s = (r1, s1)"
    by (cases "m s")
  from m m1 obtain es where es: "trace s1 = trace s @ es" "world s1 = final (world s) es"
    "genuine env (world s) es" "outcome_ok r1 es"
    unfolding tracks_def by blast
  show "\<exists>es. trace s' = trace s @ es \<and> world s' = final (world s) es
              \<and> genuine env (world s) es \<and> outcome_ok r es"
  proof (cases r1)
    case (Inl e)
    with run m1 have "r = Inl e" "s' = s1"
      by (simp_all add: bnd_def)
    with es Inl show ?thesis
      by (auto simp: outcome_ok_def)
  next
    case (Inr x)
    with run m1 have fx: "f x s1 = (r, s')"
      by (simp add: bnd_def)
    from f [of x] fx obtain fs where fs: "trace s' = trace s1 @ fs"
      "world s' = final (world s1) fs" "genuine env (world s1) fs" "outcome_ok r fs"
      unfolding tracks_def by blast
    from es(4) Inr have "list_all (\<lambda>ev. raised ev = None) es"
      by (simp add: outcome_ok_def)
    then have "outcome_ok r (es @ fs)"
      using fs(4) by (rule outcome_ok_append)
    with es fs have "trace s' = trace s @ (es @ fs) \<and> world s' = final (world s) (es @ fs)
              \<and> genuine env (world s) (es @ fs) \<and> outcome_ok r (es @ fs)"
      by simp
    then show ?thesis
      by blast
  qed
qed

lemma tracks_invoke:
  assumes "\<And>w. perform env c w = apfst (map_sum id tag) (f w)"
  shows "tracks env (invoke c tag f)"
  unfolding tracks_def
proof (intro allI impI)
  fix s r s'
  assume run: "invoke c tag f s = (r, s')"
  obtain w' where fw: "f (world s) = (r, w')"
    and s': "s' = \<lparr>world = w', trace = trace s @ [Call (world s) c (map_sum id tag r) w']\<rparr>"
    using run by (auto simp: invoke_def split: prod.splits)
  let ?es = "[Call (world s) c (map_sum id tag r) w']"
  have "outcome_ok r ?es"
    by (cases r) (simp_all add: outcome_ok_def)
  moreover have "genuine env (world s) ?es"
    using assms [of "world s"] fw by simp
  ultimately show "\<exists>es. trace s' = trace s @ es \<and> world s' = final (world s) es
              \<and> genuine env (world s) es \<and> outcome_ok r es"
    using s' by (intro exI [of _ ?es]) simp
qed

lemma tracks_attr: "tracks env (attr env obj name)"
  unfolding tracks_def
proof (intro allI impI)
  fix s r s'
  assume run: "attr env obj name s = (r, s')"
  let ?es = "[Read (world s) obj name r]"
  from run have r: "cfg_get env (world s) obj name = r"
    and s': "s' = \<lparr>world = world s, trace = trace s @ ?es\<rparr>"
    by (auto simp: attr_def)
  have "outcome_ok r ?es"
    by (cases r) (simp_all add: outcome_ok_def)
  with r s' show "\<exists>es. trace s' = trace s @ es \<and> world s' = final (world s) es
              \<and> genuine env (world s) es \<and> outcome_ok r es"
    by (intro exI [of _ ?es]) simp
qed

lemma tracks_print: "tracks env (py_print args)"
  unfolding tracks_def
  by (intro allI impI, rule_tac x = "[Print (sep_join args @ [CHR 0x0A])]" in exI)
     (auto simp: py_print_def outcome_ok_def)

lemma tracks_return: "tracks env (\<lambda>s. (Inr x, s))"
  unfolding tracks_def
  by (intro allI impI, rule_tac x = "[]" in exI) (auto simp: outcome_ok_def)

lemmas tracks_intros = tracks_bnd tracks_invoke tracks_attr tracks_print tracks_return

lemma tracks_triple:
  assumes "\<And>a b c. tracks env (f a b c)"
  shows "tracks env (case x of (a, b, c) \<Rightarrow> f a b c)"
  using assms by (cases x) simp

lemma tracks_print_config: "tracks env (print_config env cfg)"
  unfolding print_config_def by (intro tracks_intros) simp

lemma tracks_prepare_dataset: "tracks env (prepare_dataset env cfg)"
  unfolding prepare_dataset_def by (intro tracks_intros) simp

lemma tracks_locate_outputs: "tracks env (locate_outputs env)"
  unfolding locate_outputs_def by (intro tracks_intros) simp

lemma tracks_define_clients: "tracks env (define_clients env cfg tr vl sp)"
  unfolding define_clients_def Let_def by (intro tracks_intros) simp

lemma tracks_define_evaluate: "tracks env (define_evaluate env cfg te)"
  unfolding define_evaluate_def by (intro tracks_intros) simp

lemma tracks_define_strategy: "tracks env (define_strategy env cfg ef)"
  unfolding define_strategy_def by (intro tracks_intros) simp

lemma tracks_run_simulation: "tracks env (run_simulation env cfg st cf)"
  unfolding run_simulation_def by (intro tracks_intros) simp_all

lemma tracks_report: "tracks env (report env h sp)"
  unfolding report_def by (intro tracks_intros)

lemma tracks_main: "tracks env (main env cfg)"
  unfolding main_def
  by (intro tracks_bnd tracks_triple tracks_print_config tracks_prepare_dataset
      tracks_locate_outputs tracks_define_clients tracks_define_evaluate
      tracks_define_strategy tracks_run_simulation tracks_report)


subsection \<open>What each section of \<open>main\<close> adds to the trace\<close>

lemma bnd_iff: "bnd m f s = (r, s') \<longleftrightarrow>
   (\<exists>e. m s = (Inl e, s') \<and> r = Inl e) \<or> (\<exists>x s1. m s = (Inr x, s1) \<and> f x s1 = (r, s'))"
  by (auto simp: bnd_def split: prod.splits sum.splits)

lemma invoke_iff: "invoke c tag f s = (r, s') \<longleftrightarrow>
   (\<exists>w'. f (world s) = (r, w') \<and>
      s' = \<lparr>world = w', trace = trace s @ [Call (world s) c (map_sum id tag r) w']\<rparr>)"
  by (auto simp: invoke_def split: prod.splits)

lemma attr_iff: "attr env obj name s = (r, s') \<longleftrightarrow>
   cfg_get env (world s) obj name = r \<and>
   s' = \<lparr>world = world s, trace = trace s @ [Read (world s) obj name r]\<rparr>"
  by (auto simp: attr_def)

lemma print_iff: "py_print args s = (r, s') \<longleftrightarrow>
   r = Inr () \<and> s' = \<lparr>world = world s, trace = trace s @ [Print (sep_join args @ [CHR 0x0A])]\<rparr>"
  by (auto simp: py_print_def)

lemmas run_simps = bnd_iff invoke_iff attr_iff print_iff

lemma print_config_ok:
  "print_config env cfg s0 = (Inr u, s) \<Longrightarrow>
   \<exists>yaml w1. s = \<lparr>world = w1, trace = trace s0 @
     [Call (world s0) (ToYaml cfg) (Inr (RStr yaml)) w1, Print (yaml @ [CHR 0x0A])]\<rparr>"
  unfolding print_config_def by (auto simp: run_simps)

lemma print_config_fail:
  "print_config env cfg s0 = (Inl e, s) \<Longrightarrow>
   \<exists>w1. trace s = trace s0 @ [Call (world s0) (ToYaml cfg) (Inl e) w1]"
  unfolding print_config_def by (auto simp: run_simps)

lemma prepare_dataset_ok:
  "prepare_dataset env cfg s0 = (Inr (tr, vl, te), s) \<Longrightarrow>
   \<exists>d nc dv vs dss sd w1. s = \<lparr>world = w1, trace = trace s0 @
     [Read (world s0) cfg ''dataset'' (Inr d),
      Read (world s0) cfg ''num_clients'' (Inr nc),
      Read (world s0) cfg ''dataset'' (Inr dv),
      Read (world s0) dv ''val_split'' (Inr vs),
      Read (world s0) cfg ''dataset'' (Inr dss),
      Read (world s0) dss ''seed'' (Inr sd),
      Call (world s0) (LoadDatasets d nc vs sd) (Inr (RTriple tr vl te)) w1]\<rparr>"
  unfolding prepare_dataset_def by (auto simp: run_simps triple_def)

lemma prepare_dataset_fail:
  "prepare_dataset env cfg s0 = (Inl e, s) \<Longrightarrow>
   \<exists>es. trace s = trace s0 @ es \<and> (calls es = [] \<or>
    (\<exists>d nc dv vs dss sd w1. es =
     [Read (world s0) cfg ''dataset'' (Inr d),
      Read (world s0) cfg ''num_clients'' (Inr nc),
      Read (world s0) cfg ''dataset'' (Inr dv),
      Read (world s0) dv ''val_split'' (Inr vs),
      Read (world s0) cfg ''dataset'' (Inr dss),
      Read (world s0) dss ''seed'' (Inr sd),
      Call (world s0) (LoadDatasets d nc vs sd) (Inl e) w1]))"
  unfolding prepare_dataset_def by (auto simp: run_simps)

lemma locate_outputs_ok:
  "locate_outputs env s0 = (Inr sp, s) \<Longrightarrow>
   \<exists>w1. s = \<lparr>world = w1, trace = trace s0 @
     [Call (world s0) OutputDir (Inr (RStr sp)) w1,
      Print (notice @ '' '' @ sp @ [CHR 0x0A])]\<rparr>"
  unfolding locate_outputs_def by (auto simp: run_simps)

lemma locate_outputs_fail:
  "locate_outputs env s0 = (Inl e, s) \<Longrightarrow>
   \<exists>w1. trace s = trace s0 @ [Call (world s0) OutputDir (Inl e) w1]"
  unfolding locate_outputs_def by (auto simp: run_simps)

lemma define_clients_ok:
  "define_clients env cfg tr vl sp s0 = (Inr cf, s) \<Longrightarrow>
   \<exists>ne lr m mo wd w1. s = \<lparr>world = w1, trace = trace s0 @
     [Read (world s0) cfg ''num_epochs'' (Inr ne),
      Read (world s0) cfg ''learning_rate'' (Inr lr),
      Read (world s0) cfg ''model'' (Inr m),
      Read (world s0) cfg ''momentum'' (Inr mo),
      Read (world s0) cfg ''weight_decay'' (Inr wd),
      Call (world s0) (GenClientFn tr vl ne lr m mo wd (path_join sp ''client_cvs''))
        (Inr (RVal cf)) w1]\<rparr>"
  unfolding define_clients_def Let_def by (auto simp: run_simps)

lemma define_clients_fail:
  "define_clients env cfg tr vl sp s0 = (Inl e, s) \<Longrightarrow>
   \<exists>es. trace s = trace s0 @ es \<and> (calls es = [] \<or>
    (\<exists>ne lr m mo wd w1. es =
     [Read (world s0) cfg ''num_epochs'' (Inr ne),
      Read (world s0) cfg ''learning_rate'' (Inr lr),
      Read (world s0) cfg ''model'' (Inr m),
      Read (world s0) cfg ''momentum'' (Inr mo),
      Read (world s0) cfg ''weight_decay'' (Inr wd),
      Call (world s0) (GenClientFn tr vl ne lr m mo wd (path_join sp ''client_cvs''))
        (Inl e) w1]))"
  unfolding define_clients_def Let_def by (auto simp: run_simps)

lemma define_evaluate_ok:
  "define_evaluate env cfg te s0 = (Inr ef, s) \<Longrightarrow>
   \<exists>dev m w1. s = \<lparr>world = w1, trace = trace s0 @
     [Read (world s0) cfg ''server_device'' (Inr dev),
      Read (world s0) cfg ''model'' (Inr m),
      Call (world s0) (GenEvaluateFn te dev m) (Inr (RVal ef)) w1]\<rparr>"
  unfolding define_evaluate_def by (auto simp: run_simps)

lemma define_evaluate_fail:
  "define_evaluate env cfg te s0 = (Inl e, s) \<Longrightarrow>
   \<exists>es. trace s = trace s0 @ es \<and> (calls es = [] \<or>
    (\<exists>dev m w1. es =
     [Read (world s0) cfg ''server_device'' (Inr dev),
      Read (world s0) cfg ''model'' (Inr m),
      Call (world s0) (GenEvaluateFn te dev m) (Inl e) w1]))"
  unfolding define_evaluate_def by (auto simp: run_simps)

lemma define_strategy_ok:
  "define_strategy env cfg ef s0 = (Inr st, s) \<Longrightarrow>
   \<exists>sc w1. s = \<lparr>world = w1, trace = trace s0 @
     [Read (world s0) cfg ''strategy'' (Inr sc),
      Call (world s0) (Instantiate sc ef) (Inr (RVal st)) w1]\<rparr>"
  unfolding define_strategy_def by (auto simp: run_simps)

lemma define_strategy_fail:
  "define_strategy env cfg ef s0 = (Inl e, s) \<Longrightarrow>
   \<exists>es. trace s = trace s0 @ es \<and> (calls es = [] \<or>
    (\<exists>sc w1. es =
     [Read (world s0) cfg ''strategy'' (Inr sc),
      Call (world s0) (Instantiate sc ef) (Inl e) w1]))"
  unfolding define_strategy_def by (auto simp: run_simps)

lemma run_simulation_ok:
  "run_simulation env cfg st cf s0 = (Inr h, s) \<Longrightarrow>
   \<exists>m srv w1 nc nr conf w2 rc cpus rg gpus w3. s = \<lparr>world = w3, trace = trace s0 @
     [Read (world s0) cfg ''model'' (Inr m),
      Call (world s0) (ScaffoldServer st m) (Inr (RVal srv)) w1,
      Read w1 cfg ''num_clients'' (Inr nc),
      Read w1 cfg ''num_rounds'' (Inr nr),
      Call w1 (ServerConfig nr) (Inr (RVal conf)) w2,
      Read w2 cfg ''client_resources'' (Inr rc),
      Read w2 rc ''num_cpus'' (Inr cpus),
      Read w2 cfg ''client_resources'' (Inr rg),
      Read w2 rg ''num_gpus'' (Inr gpus),
      Call w2 (StartSimulation srv cf nc conf
                (PDict [(''num_cpus'', cpus), (''num_gpus'', gpus)]) st) (Inr (RVal h)) w3]\<rparr>"
  unfolding run_simulation_def by (auto simp: run_simps)

lemma report_iff:
  "report env h sp s0 = (r, s) \<longleftrightarrow>
   r = Inr () \<and> s = \<lparr>world = world s0, trace = trace s0 @
     [Print (history_str env h @ [CHR 0x0A]),
      Print (notice @ '' '' @ sp @ [CHR 0x0A])]\<rparr>"
  unfolding report_def by (auto simp: run_simps)

subsection \<open>The call log of every run\<close>

lemma log_append [simp]: "log (es @ fs) = log es @ log fs"
  by (induction es rule: log.induct) auto

lemma print_config_log:
  assumes "print_config env cfg s0 = (r, s)"
  shows "\<exists>lg. log (trace s) = log (trace s0) @ lg \<and>
     ((\<exists>yaml. r = Inr () \<and> lg = [(ToYaml cfg, Inr (RStr yaml))])
      \<or> (\<exists>e. r = Inl e \<and> lg = [(ToYaml cfg, Inl e)]))"
  using assms unfolding print_config_def
  by (cases r) (auto simp: run_simps)

lemma prepare_dataset_log:
  assumes "prepare_dataset env cfg s0 = (r, s)"
  shows "\<exists>lg d nc vs sd. log (trace s) = log (trace s0) @ lg \<and>
     ((\<exists>tr vl te. r = Inr (tr, vl, te)
          \<and> lg = [(LoadDatasets d nc vs sd, Inr (RTriple tr vl te))])
      \<or> (\<exists>e. r = Inl e \<and> (lg = [] \<or> lg = [(LoadDatasets d nc vs sd, Inl e)])))"
  using assms unfolding prepare_dataset_def
  by (cases r) (auto simp: run_simps triple_def)

lemma locate_outputs_log:
  assumes "locate_outputs env s0 = (r, s)"
  shows "\<exists>lg. log (trace s) = log (trace s0) @ lg \<and>
     ((\<exists>sp. r = Inr sp \<and> lg = [(OutputDir, Inr (RStr sp))])
      \<or> (\<exists>e. r = Inl e \<and> lg = [(OutputDir, Inl e)]))"
  using assms unfolding locate_outputs_def
  by (cases r) (auto simp: run_simps)

lemma define_clients_log:
  assumes "define_clients env cfg tr vl sp s0 = (r, s)"
  shows "\<exists>lg ne lr m mo wd. log (trace s) = log (trace s0) @ lg \<and>
     ((\<exists>cf. r = Inr cf \<and> lg =
          [(GenClientFn tr vl ne lr m mo wd (path_join sp ''client_cvs''), Inr (RVal cf))])
      \<or> (\<exists>e. r = Inl e \<and> (lg = [] \<or> lg =
          [(GenClientFn tr vl ne lr m mo wd (path_join sp ''client_cvs''), Inl e)])))"
  using assms unfolding define_clients_def Let_def
  by (cases r) (auto simp: run_simps)

lemma define_evaluate_log:
  assumes "define_evaluate env cfg te s0 = (r, s)"
  shows "\<exists>lg dev m. log (trace s) = log (trace s0) @ lg \<and>
     ((\<exists>ef. r = Inr ef \<and> lg = [(GenEvaluateFn te dev m, Inr (RVal ef))])
      \<or> (\<exists>e. r = Inl e \<and> (lg = [] \<or> lg = [(GenEvaluateFn te dev m, Inl e)])))"
  using assms unfolding define_evaluate_def
  by (cases r) (auto simp: run_simps)

lemma define_strategy_log:
  assumes "define_strategy env cfg ef s0 = (r, s)"
  shows "\<exists>lg sc. log (trace s) = log (trace s0) @ lg \<and>
     ((\<exists>st. r = Inr st \<and> lg = [(Instantiate sc ef, Inr (RVal st))])
      \<or> (\<exists>e. r = Inl e \<and> (lg = [] \<or> lg = [(Instantiate sc ef, Inl e)])))"
  using assms unfolding define_strategy_def
  by (cases r) (auto simp: run_simps)

lemma run_simulation_log:
  assumes "run_simulation env cfg st cf s0 = (r, s)"
  shows "\<exists>lg m srv nr conf nc cpus gpus. log (trace s) = log (trace s0) @ lg \<and>
     ((\<exists>h. r = Inr h \<and> lg =
          [(ScaffoldServer st m, Inr (RVal srv)), (ServerConfig nr, Inr (RVal conf)),
           (StartSimulation srv cf nc conf
              (PDict [(''num_cpus'', cpus), (''num_gpus'', gpus)]) st, Inr (RVal h))])
      \<or> (\<exists>e. r = Inl e \<and> (lg = [] \<or> lg = [(ScaffoldServer st m, Inl e)]
          \<or> lg = [(ScaffoldServer st m, Inr (RVal srv))]
          \<or> lg = [(ScaffoldServer st m, Inr (RVal srv)), (ServerConfig nr, Inl e)]
          \<or> lg = [(ScaffoldServer st m, Inr (RVal srv)), (ServerConfig nr, Inr (RVal conf))]
          \<or> lg = [(ScaffoldServer st m, Inr (RVal srv)), (ServerConfig nr, Inr (RVal conf)),
           (StartSimulation srv cf nc conf
              (PDict [(''num_cpus'', cpus), (''num_gpus'', gpus)]) st, Inl e)])))"
  using assms unfolding run_simulation_def
  by (cases r) (auto simp: run_simps)

lemma report_log: "report env h sp s0 = (r, s) \<Longrightarrow> log (trace s) = log (trace s0) \<and> r = Inr ()"
  by (auto simp: report_iff)

lemma main_log:
  assumes "main env cfg (init w) = (r, s)"
  shows "\<exists>yaml d nc vs sd tr vl te sp ne lr mc mo wd cf dev me ef sc st ms srv nr conf ncs
      cpus gpus h.
    agrees (log (trace s))
     [(ToYaml cfg, RStr yaml),
      (LoadDatasets d nc vs sd, RTriple tr vl te),
      (OutputDir, RStr sp),
      (GenClientFn tr vl ne lr mc mo wd (path_join sp ''client_cvs''), RVal cf),
      (GenEvaluateFn te dev me, RVal ef),
      (Instantiate sc ef, RVal st),
      (ScaffoldServer st ms, RVal srv),
      (ServerConfig nr, RVal conf),
      (StartSimulation srv cf ncs conf (PDict [(''num_cpus'', cpus), (''num_gpus'', gpus)]) st,
       RVal h)]"
  using assms unfolding main_def
  apply (simp add: bnd_iff split: prod.splits)
  apply (elim disjE exE conjE)
  apply (auto simp: init_def dest!: print_config_log prepare_dataset_log locate_outputs_log
      define_clients_log define_evaluate_log define_strategy_log run_simulation_log report_log)
  done


subsection \<open>The trace, section by section\<close>

lemma main_unfold: "main env cfg = bnd (print_config env cfg) (\<lambda>_. from_dataset env cfg)"
  by (simp add: main_def from_dataset_def from_outputs_def from_clients_def
      from_evaluate_def from_strategy_def from_simulation_def)

lemma after_config:
  assumes "main env cfg (init w) = (r, s)"
  shows "(\<exists>e. r = Inl e \<and> list_all (\<lambda>c. rank c \<le> 0) (calls (trace s)))
       \<or> (\<exists>yaml w1.
            from_dataset env cfg \<lparr>world = w1, trace =
     [Call w (ToYaml cfg) (Inr (RStr yaml)) w1,
      Print (yaml @ [CHR 0x0A])]\<rparr> = (r, s))"
  using assms unfolding main_unfold
  by (auto simp: bnd_iff init_def list_all_iff dest!: print_config_ok print_config_fail)

lemma after_dataset:
  assumes "main env cfg (init w) = (r, s)"
  shows "(\<exists>e. r = Inl e \<and> list_all (\<lambda>c. rank c \<le> 1) (calls (trace s)))
       \<or> (\<exists>yaml w1 d nc dv vs dss sd w2 tr vl te.
            from_outputs env cfg tr vl te \<lparr>world = w2, trace =
     [Call w (ToYaml cfg) (Inr (RStr yaml)) w1,
      Print (yaml @ [CHR 0x0A]),
      Read w1 cfg ''dataset'' (Inr d),
      Read w1 cfg ''num_clients'' (Inr nc),
      Read w1 cfg ''dataset'' (Inr dv),
      Read w1 dv ''val_split'' (Inr vs),
      Read w1 cfg ''dataset'' (Inr dss),
      Read w1 dss ''seed'' (Inr sd),
      Call w1 (LoadDatasets d nc vs sd) (Inr (RTriple tr vl te)) w2]\<rparr> = (r, s))"
  using after_config [OF assms] unfolding from_dataset_def
  by (auto simp: bnd_iff list_all_iff split: prod.splits dest!: prepare_dataset_ok prepare_dataset_fail)

lemma after_outputs:
  assumes "main env cfg (init w) = (r, s)"
  shows "(\<exists>e. r = Inl e \<and> list_all (\<lambda>c. rank c \<le> 2) (calls (trace s)))
       \<or> (\<exists>yaml w1 d nc dv vs dss sd w2 tr vl te w3 sp.
            from_clients env cfg tr vl te sp \<lparr>world = w3, trace =
     [Call w (ToYaml cfg) (Inr (RStr yaml)) w1,
      Print (yaml @ [CHR 0x0A]),
      Read w1 cfg ''dataset'' (Inr d),
      Read w1 cfg ''num_clients'' (Inr nc),
      Read w1 cfg ''dataset'' (Inr dv),
      Read w1 dv ''val_split'' (Inr vs),
      Read w1 cfg ''dataset'' (Inr dss),
      Read w1 dss ''seed'' (Inr sd),
      Call w1 (LoadDatasets d nc vs sd) (Inr (RTriple tr vl te)) w2,
      Call w2 OutputDir (Inr (RStr sp)) w3,
      Print (notice @ '' '' @ sp @ [CHR 0x0A])]\<rparr> = (r, s))"
  using after_dataset [OF assms] unfolding from_outputs_def
  by (auto simp: bnd_iff list_all_iff dest!: locate_outputs_ok locate_outputs_fail)

lemma after_clients:
  assumes "main env cfg (init w) = (r, s)"
  shows "(\<exists>e. r = Inl e \<and> list_all (\<lambda>c. rank c \<le> 3) (calls (trace s)))
       \<or> (\<exists>yaml w1 d nc dv vs dss sd w2 tr vl te w3 sp ne lr mc mo wd w4 cf.
            from_evaluate env cfg te sp cf \<lparr>world = w4, trace =
     [Call w (ToYaml cfg) (Inr (RStr yaml)) w1,
      Print (yaml @ [CHR 0x0A]),
      Read w1 cfg ''dataset'' (Inr d),
      Read w1 cfg ''num_clients'' (Inr nc),
      Read w1 cfg ''dataset'' (Inr dv),
      Read w1 dv ''val_split'' (Inr vs),
      Read w1 cfg ''dataset'' (Inr dss),
      Read w1 dss ''seed'' (Inr sd),
      Call w1 (LoadDatasets d nc vs sd) (Inr (RTriple tr vl te)) w2,
      Call w2 OutputDir (Inr (RStr sp)) w3,
      Print (notice @ '' '' @ sp @ [CHR 0x0A]),
      Read w3 cfg ''num_epochs'' (Inr ne),
      Read w3 cfg ''learning_rate'' (Inr lr),
      Read w3 cfg ''model'' (Inr mc),
      Read w3 cfg ''momentum'' (Inr mo),
      Read w3 cfg ''weight_decay'' (Inr wd),
      Call w3 (GenClientFn tr vl ne lr mc mo wd (path_join sp ''client_cvs''))
        (Inr (RVal cf)) w4]\<rparr> = (r, s))"
  using after_outputs [OF assms] unfolding from_clients_def
  by (auto simp: bnd_iff list_all_iff dest!: define_clients_ok define_clients_fail)

lemma after_evaluate:
  assumes "main env cfg (init w) = (r, s)"
  shows "(\<exists>e. r = Inl e \<and> list_all (\<lambda>c. rank c \<le> 4) (calls (trace s)))
       \<or> (\<exists>yaml w1 d nc dv vs dss sd w2 tr vl te w3 sp ne lr mc mo wd w4 cf dev me w5 ef.
            from_strategy env cfg sp cf ef \<lparr>world = w5, trace =
     [Call w (ToYaml cfg) (Inr (RStr yaml)) w1,
      Print (yaml @ [CHR 0x0A]),
      Read w1 cfg ''dataset'' (Inr d),
      Read w1 cfg ''num_clients'' (Inr nc),
      Read w1 cfg ''dataset'' (Inr dv),
      Read w1 dv ''val_split'' (Inr vs),
      Read w1 cfg ''dataset'' (Inr dss),
      Read w1 dss ''seed'' (Inr sd),
      Call w1 (LoadDatasets d nc vs sd) (Inr (RTriple tr vl te)) w2,
      Call w2 OutputDir (Inr (RStr sp)) w3,
      Print (notice @ '' '' @ sp @ [CHR 0x0A]),
      Read w3 cfg ''num_epochs'' (Inr ne),
      Read w3 cfg ''learning_rate'' (Inr lr),
      Read w3 cfg ''model'' (Inr mc),
      Read w3 cfg ''momentum'' (Inr mo),
      Read w3 cfg ''weight_decay'' (Inr wd),
      Call w3 (GenClientFn tr vl ne lr mc mo wd (path_join sp ''client_cvs''))
        (Inr (RVal cf)) w4,
      Read w4 cfg ''server_device'' (Inr dev),
      Read w4 cfg ''model'' (Inr me),
      Call w4 (GenEvaluateFn te dev me) (Inr (RVal ef)) w5]\<rparr> = (r, s))"
  using after_clients [OF assms] unfolding from_evaluate_def
  by (auto simp: bnd_iff list_all_iff dest!: define_evaluate_ok define_evaluate_fail)

lemma after_strategy:
  assumes "main env cfg (init w) = (r, s)"
  shows "(\<exists>e. r = Inl e \<and> list_all (\<lambda>c. rank c \<le> 5) (calls (trace s)))
       \<or> (\<exists>yaml w1 d nc dv vs dss sd w2 tr vl te w3 sp ne lr mc mo wd w4 cf dev me w5 ef sc w6 st.
            from_simulation env cfg sp cf st \<lparr>world = w6, trace =
     [Call w (ToYaml cfg) (Inr (RStr yaml)) w1,
      Print (yaml @ [CHR 0x0A]),
      Read w1 cfg ''dataset'' (Inr d),
      Read w1 cfg ''num_clients'' (Inr nc),
      Read w1 cfg ''dataset'' (Inr dv),
      Read w1 dv ''val_split'' (Inr vs),
      Read w1 cfg ''dataset'' (Inr dss),
      Read w1 dss ''seed'' (Inr sd),
      Call w1 (LoadDatasets d nc vs sd) (Inr (RTriple tr vl te)) w2,
      Call w2 OutputDir (Inr (RStr sp)) w3,
      Print (notice @ '' '' @ sp @ [CHR 0x0A]),
      Read w3 cfg ''num_epochs'' (Inr ne),
      Read w3 cfg ''learning_rate'' (Inr lr),
      Read w3 cfg ''model'' (Inr mc),
      Read w3 cfg ''momentum'' (Inr mo),
      Read w3 cfg ''weight_decay'' (Inr wd),
      Call w3 (GenClientFn tr vl ne lr mc mo wd (path_join sp ''client_cvs''))
        (Inr (RVal cf)) w4,
      Read w4 cfg ''server_device'' (Inr dev),
      Read w4 cfg ''model'' (Inr me),
      Call w4 (GenEvaluateFn te dev me) (Inr (RVal ef)) w5,
      Read w5 cfg ''strategy'' (Inr sc),
      Call w5 (Instantiate sc ef) (Inr (RVal st)) w6]\<rparr> = (r, s))"
  using after_evaluate [OF assms] unfolding from_strategy_def
  by (auto simp: bnd_iff list_all_iff dest!: define_strategy_ok define_strategy_fail)


subsection \<open>Completed runs\<close>

lemma bnd_Inr:
  "bnd m f s = (Inr v, s') \<longleftrightarrow> (\<exists>x s1. m s = (Inr x, s1) \<and> f x s1 = (Inr v, s'))"
  by (auto simp: bnd_def split: prod.splits sum.splits)

lemma main_ok:
  assumes "main env cfg (init w) = (Inr u, s)"
  shows "\<exists>yaml w1 d nc dv vs dss sd w2 tr vl te w3 sp ne lr mc mo wd w4 cf dev me w5 ef sc w6 st ms srv w7 ncs nr conf w8 rc cpus rg gpus w9 h.
     s = \<lparr>world = w9, trace =
     [Call w (ToYaml cfg) (Inr (RStr yaml)) w1,
      Print (yaml @ [CHR 0x0A]),
      Read w1 cfg ''dataset'' (Inr d),
      Read w1 cfg ''num_clients'' (Inr nc),
      Read w1 cfg ''dataset'' (Inr dv),
      Read w1 dv ''val_split'' (Inr vs),
      Read w1 cfg ''dataset'' (Inr dss),
      Read w1 dss ''seed'' (Inr sd),
      Call w1 (LoadDatasets d nc vs sd) (Inr (RTriple tr vl te)) w2,
      Call w2 OutputDir (Inr (RStr sp)) w3,
      Print (notice @ '' '' @ sp @ [CHR 0x0A]),
      Read w3 cfg ''num_epochs'' (Inr ne),
      Read w3 cfg ''learning_rate'' (Inr lr),
      Read w3 cfg ''model'' (Inr mc),
      Read w3 cfg ''momentum'' (Inr mo),
      Read w3 cfg ''weight_decay'' (Inr wd),
      Call w3 (GenClientFn tr vl ne lr mc mo wd (path_join sp ''client_cvs''))
        (Inr (RVal cf)) w4,
      Read w4 cfg ''server_device'' (Inr dev),
      Read w4 cfg ''model'' (Inr me),
      Call w4 (GenEvaluateFn te dev me) (Inr (RVal ef)) w5,
      Read w5 cfg ''strategy'' (Inr sc),
      Call w5 (Instantiate sc ef) (Inr (RVal st)) w6,
      Read w6 cfg ''model'' (Inr ms),
      Call w6 (ScaffoldServer st ms) (Inr (RVal srv)) w7,
      Read w7 cfg ''num_clients'' (Inr ncs),
      Read w7 cfg ''num_rounds'' (Inr nr),
      Call w7 (ServerConfig nr) (Inr (RVal conf)) w8,
      Read w8 cfg ''client_resources'' (Inr rc),
      Read w8 rc ''num_cpus'' (Inr cpus),
      Read w8 cfg ''client_resources'' (Inr rg),
      Read w8 rg ''num_gpus'' (Inr gpus),
      Call w8 (StartSimulation srv cf ncs conf
        (PDict [(''num_cpus'', cpus), (''num_gpus'', gpus)]) st) (Inr (RVal h)) w9,
      Print (history_str env h @ [CHR 0x0A]),
      Print (notice @ '' '' @ sp @ [CHR 0x0A])]\<rparr>"
  using after_strategy [OF assms] unfolding from_simulation_def
  by (auto simp: bnd_Inr report_iff dest!: run_simulation_ok)

lemma completed_run:
  assumes "main env cfg (init w) = (Inr u, s)"
  shows "\<exists>v. w_initial v = w \<and> trace s = script env cfg v \<and> world s = w_final
        v"
  using main_ok [OF assms]
  apply (elim exE)
  subgoal for yaml w1 d nc dv vs dss sd w2 tr vl te w3 sp ne lr mc mo wd w4 cf dev me w5 ef sc
        w6 st ms srv w7 ncs nr conf w8 rc cpus rg gpus w9 h
    apply (rule exI [of _ "\<lparr>w_initial = w, the_yaml = yaml, w_rendered = w1, the_dataset
        = d, the_num_clients = nc, the_dataset_v = dv, the_val_split = vs, the_dataset_s = dss,
        the_seed = sd, w_loaded = w2, the_trainloaders = tr, the_valloaders = vl,
        the_testloader = te, w_located = w3, the_save_path = sp, the_num_epochs = ne,
        the_learning_rate = lr, the_model_c = mc, the_momentum = mo, the_weight_decay = wd,
        w_clients = w4, the_client_fn = cf, the_device = dev, the_model_e = me, w_evaluate =
        w5, the_evaluate_fn = ef, the_strategy_cfg = sc, w_strategy = w6, the_strategy = st,
        the_model_s = ms, the_server = srv, w_server = w7, the_num_clients_s = ncs,
        the_num_rounds = nr, the_config = conf, w_config = w8, the_res_c = rc, the_num_cpus =
        cpus, the_res_g = rg, the_num_gpus = gpus, w_final = w9, the_history = h\<rparr>"])
    apply (simp add: script_def)
    done
  done

subsection \<open>Reading the call log\<close>

lemma agrees_Cons_iff:
  "agrees lg ((c, v) # L) \<longleftrightarrow>
     lg = [] \<or> (\<exists>e. lg = [(c, Inl e)]) \<or> (\<exists>lg'. lg = (c, Inr v) # lg' \<and> agrees lg' L)"
proof (cases lg)
  case Nil
  then show ?thesis by simp
next
  case (Cons x lg')
  obtain c' out where x: "x = (c', out)"
    by (cases x)
  show ?thesis
    using Cons x by (cases out) auto
qed

lemma agrees_Nil_iff: "agrees lg [] \<longleftrightarrow> lg = []"
  by (cases lg) auto

lemma log_mem: "(c, out) \<in> set (log es) \<longleftrightarrow> (\<exists>a b. Call a c out b \<in> set es)"
  by (induction es rule: log.induct) auto

lemma calls_log: "calls es = map fst (log es)"
  by (induction es rule: log.induct) auto

subsection \<open>What the collaborators leave alone, \<open>main\<close> leaves alone\<close>



subsection \<open>Runs that start the simulation\<close>



lemma genuine_invariant:
  assumes inv: "\<And>c w'. P w' \<Longrightarrow> P (snd (perform env c w'))"
  shows "genuine env w es \<Longrightarrow> P w \<Longrightarrow> P (final w es)"
proof (induction es arbitrary: w)
  case Nil
  then show ?case by simp
next
  case (Cons ev es)
  show ?case
  proof (cases ev)
    case (Call a c out b)
    with Cons.prems have step: "perform env c w = (out, b)" and rest: "genuine env b es"
      by simp_all
    from inv [OF Cons.prems(2), of c] step have "P b"
      by simp
    from Cons.IH [OF rest this] Call show ?thesis
      by simp
  next
    case (Read a obj name out)
    with Cons.prems have "genuine env w es"
      by simp
    from Cons.IH [OF this Cons.prems(2)] Read show ?thesis
      by simp
  next
    case (Print l)
    with Cons.prems have "genuine env w es"
      by simp
    from Cons.IH [OF this Cons.prems(2)] Print show ?thesis
      by simp
  qed
qed

lemma run_genuine:
  assumes "main env cfg (init w) = (r, s)"
  shows "genuine env w (trace s) \<and> world s = final w (trace s)"
proof -
  from tracks_main [of env cfg] assms obtain es
    where "trace s = trace (init w) @ es" "world s = final (world (init w)) es"
      "genuine env (world (init w)) es"
    unfolding tracks_def by blast
  then show ?thesis
    by (simp add: init_def)
qed

subsection \<open>The example run\<close>

lemma demo_run_pair: "main demo_env demo_cfg (init 0) = (fst demo_run, snd demo_run)"
  by (simp add: demo_run_def)

lemma demo_run_completes: "fst demo_run = Inr ()"
  by code_simp

lemma demo_run_ok: "main demo_env demo_cfg (init 0) = (Inr (), snd demo_run)"
  using demo_run_pair demo_run_completes by simp

section \<open>The claims\<close>




text \<open>
  Claim C1. In every run, whenever the client factory \<open>gen_client_fn\<close> is called, its
  \<open>client_cv_dir\<close> argument is \<open>os.path.join(save_path, "client_cvs")\<close>, where
  \<open>save_path\<close> is the string that \<open>HydraConfig.get().runtime.output_dir\<close> returned
  earlier in the same run; when that string is not empty and does not end with a slash,
  this is \<open>save_path/client_cvs\<close>. The call is really made: every run that gets past
  the client section (any later collaborator call is in its log) has called
  \<open>gen_client_fn\<close> with the joined path, and a completed run has called it exactly once,
  with the joined path, in the world that the output-directory lookup left.
\<close>

theorem client_cv_dir_joined:
  assumes "main env cfg (init w) = (r, s)"
  shows "(\<forall>a tr vl ne lr m mo wd dir out b.
            Call a (GenClientFn tr vl ne lr m mo wd dir) out b \<in> set (trace s) \<longrightarrow>
            (\<exists>sp a' b'. Call a' OutputDir (Inr (RStr sp)) b' \<in> set (trace s)
                   \<and> dir = path_join sp ''client_cvs''
                   \<and> (sp \<noteq> [] \<and> last sp \<noteq> CHR ''/'' \<longrightarrow> dir = sp @ ''/client_cvs'')))
       \<and> (\<forall>c out. (c, out) \<in> set (log (trace s)) \<longrightarrow> 3 < rank c \<longrightarrow>
            (\<exists>sp tr vl ne lr m mo wd cf.
               (OutputDir, Inr (RStr sp)) \<in> set (log (trace s))
             \<and> (GenClientFn tr vl ne lr m mo wd (path_join sp ''client_cvs''), Inr (RVal cf))
                  \<in> set (log (trace s))))
       \<and> (\<forall>u. r = Inr u \<longrightarrow>
            (\<exists>a b c sp tr vl ne lr m mo wd cf.
               Call a OutputDir (Inr (RStr sp)) b \<in> set (trace s)
             \<and> Call b (GenClientFn tr vl ne lr m mo wd (path_join sp ''client_cvs''))
                  (Inr (RVal cf)) c \<in> set (trace s)
             \<and> filter is_gen_client_fn (calls (trace s))
                  = [GenClientFn tr vl ne lr m mo wd (path_join sp ''client_cvs'')]))"
proof (intro conjI allI impI)
  fix a tr vl ne lr m mo wd dir out b
  assume "Call a (GenClientFn tr vl ne lr m mo wd dir) out b \<in> set (trace s)"
  then have "(GenClientFn tr vl ne lr m mo wd dir, out) \<in> set (log (trace s))"
    by (auto simp: log_mem)
  with main_log [OF assms]
  have "\<exists>sp. (OutputDir, Inr (RStr sp)) \<in> set (log (trace s))
             \<and> dir = path_join sp ''client_cvs''"
    by (auto simp: agrees_Cons_iff agrees_Nil_iff)
  then obtain sp a' b' where "Call a' OutputDir (Inr (RStr sp)) b' \<in> set (trace s)"
    and dir: "dir = path_join sp ''client_cvs''"
    by (auto simp: log_mem)
  moreover from dir have "sp \<noteq> [] \<and> last sp \<noteq> CHR ''/'' \<longrightarrow> dir = sp @ ''/client_cvs''"
    by (simp add: path_join_def)
  ultimately show "\<exists>sp a' b'. Call a' OutputDir (Inr (RStr sp)) b' \<in> set (trace s)
                   \<and> dir = path_join sp ''client_cvs''
                   \<and> (sp \<noteq> [] \<and> last sp \<noteq> CHR ''/'' \<longrightarrow> dir = sp @ ''/client_cvs'')"
    by blast
next
  fix c out
  assume "(c, out) \<in> set (log (trace s))" and "3 < rank c"
  with main_log [OF assms]
  show "\<exists>sp tr vl ne lr m mo wd cf.
               (OutputDir, Inr (RStr sp)) \<in> set (log (trace s))
             \<and> (GenClientFn tr vl ne lr m mo wd (path_join sp ''client_cvs''), Inr (RVal cf))
                  \<in> set (log (trace s))"
    by (auto simp: agrees_Cons_iff agrees_Nil_iff)
next
  fix u
  assume "r = Inr u"
  with assms have "main env cfg (init w) = (Inr u, s)"
    by simp
  from completed_run [OF this] obtain v where v: "trace s = script env cfg v"
    by blast
  show "\<exists>a b c sp tr vl ne lr m mo wd cf.
               Call a OutputDir (Inr (RStr sp)) b \<in> set (trace s)
             \<and> Call b (GenClientFn tr vl ne lr m mo wd (path_join sp ''client_cvs''))
                  (Inr (RVal cf)) c \<in> set (trace s)
             \<and> filter is_gen_client_fn (calls (trace s))
                  = [GenClientFn tr vl ne lr m mo wd (path_join sp ''client_cvs'')]"
    apply (rule exI [of _ "w_loaded v"])
    apply (rule exI [of _ "w_located v"])
    apply (rule exI [of _ "w_clients v"])
    apply (rule exI [of _ "the_save_path v"])
    apply (rule exI [of _ "the_trainloaders v"])
    apply (rule exI [of _ "the_valloaders v"])
    apply (simp add: v script_def)
    done
qed

theorem client_cv_dir_joined_witness:
  "Call 3 (GenClientFn (PRef 1) (PRef 2) (PInt 5) (PStr ''0.01'')
      (PDict [(''_target_'', PStr ''niid_bench.models.CNN'')]) (PStr ''0.9'') (PStr ''0.00001'')
      ''outputs/run1/client_cvs'') (Inr (RVal (PRef 4))) 4
    \<in> set (trace (snd demo_run))
   \<and> (\<exists>sp a' b'. Call a' OutputDir (Inr (RStr sp)) b' \<in> set (trace (snd demo_run))
              \<and> ''outputs/run1/client_cvs'' = path_join sp ''client_cvs'')
   \<and> (\<exists>sp tr vl ne lr m mo wd.
         filter is_gen_client_fn (calls (trace (snd demo_run)))
           = [GenClientFn tr vl ne lr m mo wd (path_join sp ''client_cvs'')])"
proof -
  have mem: "Call 3 (GenClientFn (PRef 1) (PRef 2) (PInt 5) (PStr ''0.01'')
      (PDict [(''_target_'', PStr ''niid_bench.models.CNN'')]) (PStr ''0.9'') (PStr ''0.00001'')
      ''outputs/run1/client_cvs'') (Inr (RVal (PRef 4))) 4
    \<in> set (trace (snd demo_run))"
    by code_simp
  note claim = client_cv_dir_joined [OF demo_run_pair]
  from claim [THEN conjunct1, rule_format, OF mem]
  have joined: "\<exists>sp a' b'. Call a' OutputDir (Inr (RStr sp)) b' \<in> set (trace (snd demo_run))
              \<and> ''outputs/run1/client_cvs'' = path_join sp ''client_cvs''"
    by (elim exE conjE) (intro exI conjI, assumption+)
  from claim [THEN conjunct2, THEN conjunct2, rule_format, OF demo_run_completes]
  have once: "\<exists>sp tr vl ne lr m mo wd.
         filter is_gen_client_fn (calls (trace (snd demo_run)))
           = [GenClientFn tr vl ne lr m mo wd (path_join sp ''client_cvs'')]"
    by (elim exE conjE) (intro exI, assumption)
  from mem joined once show ?thesis
    by (intro conjI)
qed





text \<open>
  Claim C5. The history is not persisted. In a completed run, \<open>start_simulation\<close> is the
  last collaborator call: after it returns the history, \<open>main\<close> only prints the history
  and the notice, and the world at the end of \<open>main\<close> is the world that the simulation
  left.
\<close>

theorem history_only_printed:
  assumes "main env cfg (init w) = (Inr u, s)"
  shows "\<exists>pre a srv cf nc conf res st h b sp.
           trace s = pre @ [Call a (StartSimulation srv cf nc conf res st) (Inr (RVal h)) b,
                            Print (history_str env h @ [CHR 0x0A]),
                            Print (notice @ '' '' @ sp @ [CHR 0x0A])]
         \<and> world s = b
         \<and> calls (trace s) = calls pre @ [StartSimulation srv cf nc conf res st]"
proof -
  from completed_run [OF assms] obtain v where v: "trace s = script env cfg v"
    "world s = w_final v"
    by blast
  show ?thesis
    apply (intro exI [of _ "take 31 (script env cfg v)"])
    apply (simp add: v script_def)
    done
qed

theorem history_only_printed_witness:
  "\<exists>pre a srv cf nc conf res st h b sp.
      trace (snd demo_run) =
        pre @ [Call a (StartSimulation srv cf nc conf res st) (Inr (RVal h)) b,
               Print (history_str demo_env h @ [CHR 0x0A]),
               Print (notice @ '' '' @ sp @ [CHR 0x0A])]
    \<and> world (snd demo_run) = b"
  using history_only_printed [OF demo_run_ok] by blast





text \<open>
  Claim C9. \<open>main\<close> has no effect of its own on the world (file system included): in
  every run the trace is genuine and the final world is the one reached through the
  collaborator calls of the trace, so every property of the world that no collaborator
  call destroys still holds after \<open>main\<close>. In a completed run \<open>gen_client_fn\<close> is called
  in exactly the world that the output-directory lookup left, with the joined path: between
  the two, \<open>main\<close> only computed a string.
\<close>

theorem main_has_no_effect_of_its_own:
  assumes "main env cfg (init w) = (r, s)"
  shows "genuine env w (trace s) \<and> world s = final w (trace s)
       \<and> (\<forall>P. (\<forall>c w'. P w' \<longrightarrow> P (snd (perform env c w'))) \<longrightarrow> P w \<longrightarrow> P (world s))
       \<and> (\<forall>u. r = Inr u \<longrightarrow>
            (\<exists>a b c sp tr vl ne lr m mo wd cf.
               Call a OutputDir (Inr (RStr sp)) b \<in> set (trace s)
             \<and> Call b (GenClientFn tr vl ne lr m mo wd (path_join sp ''client_cvs''))
                  (Inr (RVal cf)) c \<in> set (trace s)))"
proof (intro conjI allI impI)
  from run_genuine [OF assms] show gen: "genuine env w (trace s)"
    and fin: "world s = final w (trace s)"
    by simp_all
  fix P :: "'a \<Rightarrow> bool"
  assume "\<forall>c w'. P w' \<longrightarrow> P (snd (perform env c w'))" and "P w"
  then have "P (final w (trace s))"
    using gen by (intro genuine_invariant [where P = P and env = env]) auto
  with fin show "P (world s)"
    by simp
next
  fix u
  assume "r = Inr u"
  with assms have "main env cfg (init w) = (Inr u, s)"
    by simp
  from completed_run [OF this] obtain v where v: "trace s = script env cfg v"
    by blast
  show "\<exists>a b c sp tr vl ne lr m mo wd cf.
               Call a OutputDir (Inr (RStr sp)) b \<in> set (trace s)
             \<and> Call b (GenClientFn tr vl ne lr m mo wd (path_join sp ''client_cvs''))
                  (Inr (RVal cf)) c \<in> set (trace s)"
    apply (rule exI [of _ "w_loaded v"])
    apply (rule exI [of _ "w_located v"])
    apply (rule exI [of _ "w_clients v"])
    apply (rule exI [of _ "the_save_path v"])
    apply (rule exI [of _ "the_trainloaders v"])
    apply (rule exI [of _ "the_valloaders v"])
    apply (simp add: v script_def)
    done
qed

theorem main_has_no_effect_of_its_own_witness:
  "genuine demo_env 0 (trace (snd demo_run))
   \<and> world (snd demo_run) = final 0 (trace (snd demo_run))
   \<and> 0 \<le> world (snd demo_run)"
proof -
  have inv: "\<forall>c w'. 0 \<le> w' \<longrightarrow> 0 \<le> snd (perform demo_env c w')"
    by simp
  from main_has_no_effect_of_its_own [OF demo_run_pair] inv show ?thesis
    by blast
qed

text \<open>
  Claim C10. The loaders are kept apart. In every run, once \<open>load_datasets\<close> has returned
  \<open>(trainloaders, valloaders, testloader)\<close>, every call of \<open>gen_client_fn\<close> has the first
  two in its loader parameters and every call of \<open>gen_evaluate_fn\<close> has the third. In a
  completed run there is one call of each; every other argument of these two calls is a
  value read from the configuration, and every argument of every other call is the
  configuration, a value read from it, an object returned by a collaborator call other
  than \<open>load_datasets\<close>, or the resources dict. So a test loader that is none of these
  and is not one of the client loaders is an argument of the \<open>gen_evaluate_fn\<close> call and
  of no other call, and a training or validation loader that is none of these and is not
  the test loader is an argument of the \<open>gen_client_fn\<close> call and of no other call.
\<close>

theorem loaders_kept_apart:
  assumes "main env cfg (init w) = (r, s)"
  shows "(\<forall>d n v sd tr vl te.
            (LoadDatasets d n v sd, Inr (RTriple tr vl te)) \<in> set (log (trace s)) \<longrightarrow>
            list_all (loaders_ok tr vl te) (calls (trace s)))
       \<and> (\<forall>u. r = Inr u \<longrightarrow>
            (\<exists>d n v sd tr vl te cc ce.
               (LoadDatasets d n v sd, Inr (RTriple tr vl te)) \<in> set (log (trace s))
             \<and> filter is_gen_client_fn (calls (trace s)) = [cc]
             \<and> filter is_gen_evaluate_fn (calls (trace s)) = [ce]
             \<and> set (args_of cc) \<subseteq> {tr, vl} \<union> set (read_values (trace s))
             \<and> set (args_of ce) \<subseteq> {te} \<union> set (read_values (trace s))))
       \<and> (\<forall>u d n v sd tr vl te. r = Inr u \<longrightarrow>
            (LoadDatasets d n v sd, Inr (RTriple tr vl te)) \<in> set (log (trace s)) \<longrightarrow>
            (\<exists>ne lr mc mo wd dir dev me cpus gpus.
               filter is_gen_client_fn (calls (trace s)) = [GenClientFn tr vl ne lr mc mo wd dir]
             \<and> filter is_gen_evaluate_fn (calls (trace s)) = [GenEvaluateFn te dev me]
             \<and> list_all (\<lambda>c. is_gen_client_fn c \<or> is_gen_evaluate_fn c
                    \<or> set (args_of c) \<subseteq>
                        insert cfg (insert (PDict [(''num_cpus'', cpus), (''num_gpus'', gpus)])
                          (set (read_values (trace s)) \<union> set (returned (trace s)))))
                  (calls (trace s))
             \<and> (fresh cfg (trace s) te \<and> te \<noteq> tr \<and> te \<noteq> vl \<longrightarrow>
                  filter (\<lambda>c. te \<in> set (args_of c)) (calls (trace s))
                    = [GenEvaluateFn te dev me])
             \<and> (fresh cfg (trace s) tr \<and> tr \<noteq> te \<longrightarrow>
                  filter (\<lambda>c. tr \<in> set (args_of c)) (calls (trace s))
                    = [GenClientFn tr vl ne lr mc mo wd dir])
             \<and> (fresh cfg (trace s) vl \<and> vl \<noteq> te \<longrightarrow>
                  filter (\<lambda>c. vl \<in> set (args_of c)) (calls (trace s))
                    = [GenClientFn tr vl ne lr mc mo wd dir])))"
proof (intro conjI allI impI)
  fix d n v sd tr vl te
  assume "(LoadDatasets d n v sd, Inr (RTriple tr vl te)) \<in> set (log (trace s))"
  with main_log [OF assms] show "list_all (loaders_ok tr vl te) (calls (trace s))"
    by (auto simp: calls_log agrees_Cons_iff agrees_Nil_iff)
next
  fix u
  assume "r = Inr u"
  with assms have "main env cfg (init w) = (Inr u, s)"
    by simp
  from completed_run [OF this] obtain v where v: "trace s = script env cfg v"
    by blast
  show "\<exists>d n v sd tr vl te cc ce.
               (LoadDatasets d n v sd, Inr (RTriple tr vl te)) \<in> set (log (trace s))
             \<and> filter is_gen_client_fn (calls (trace s)) = [cc]
             \<and> filter is_gen_evaluate_fn (calls (trace s)) = [ce]
             \<and> set (args_of cc) \<subseteq> {tr, vl} \<union> set (read_values (trace s))
             \<and> set (args_of ce) \<subseteq> {te} \<union> set (read_values (trace s))"
    apply (rule exI [of _ "the_dataset v"])
    apply (rule exI [of _ "the_num_clients v"])
    apply (rule exI [of _ "the_val_split v"])
    apply (rule exI [of _ "the_seed v"])
    apply (rule exI [of _ "the_trainloaders v"])
    apply (rule exI [of _ "the_valloaders v"])
    apply (rule exI [of _ "the_testloader v"])
    apply (simp add: v script_def)
    done
next
  fix u d n va sd tr vl te
  assume "r = Inr u"
    and entry: "(LoadDatasets d n va sd, Inr (RTriple tr vl te)) \<in> set (log (trace s))"
  with assms have "main env cfg (init w) = (Inr u, s)"
    by simp
  from completed_run [OF this] obtain v where v: "trace s = script env cfg v"
    by blast
  from entry have loaders: "tr = the_trainloaders v" "vl = the_valloaders v"
    "te = the_testloader v"
    by (simp_all add: v script_def)
  show "\<exists>ne lr mc mo wd dir dev me cpus gpus.
               filter is_gen_client_fn (calls (trace s)) = [GenClientFn tr vl ne lr mc mo wd dir]
             \<and> filter is_gen_evaluate_fn (calls (trace s)) = [GenEvaluateFn te dev me]
             \<and> list_all (\<lambda>c. is_gen_client_fn c \<or> is_gen_evaluate_fn c
                    \<or> set (args_of c) \<subseteq>
                        insert cfg (insert (PDict [(''num_cpus'', cpus), (''num_gpus'', gpus)])
                          (set (read_values (trace s)) \<union> set (returned (trace s)))))
                  (calls (trace s))
             \<and> (fresh cfg (trace s) te \<and> te \<noteq> tr \<and> te \<noteq> vl \<longrightarrow>
                  filter (\<lambda>c. te \<in> set (args_of c)) (calls (trace s))
                    = [GenEvaluateFn te dev me])
             \<and> (fresh cfg (trace s) tr \<and> tr \<noteq> te \<longrightarrow>
                  filter (\<lambda>c. tr \<in> set (args_of c)) (calls (trace s))
                    = [GenClientFn tr vl ne lr mc mo wd dir])
             \<and> (fresh cfg (trace s) vl \<and> vl \<noteq> te \<longrightarrow>
                  filter (\<lambda>c. vl \<in> set (args_of c)) (calls (trace s))
                    = [GenClientFn tr vl ne lr mc mo wd dir])"
    apply (rule exI [of _ "the_num_epochs v"])
    apply (rule exI [of _ "the_learning_rate v"])
    apply (rule exI [of _ "the_model_c v"])
    apply (rule exI [of _ "the_momentum v"])
    apply (rule exI [of _ "the_weight_decay v"])
    apply (rule exI [of _ "path_join (the_save_path v) ''client_cvs''"])
    apply (rule exI [of _ "the_device v"])
    apply (rule exI [of _ "the_model_e v"])
    apply (rule exI [of _ "the_num_cpus v"])
    apply (rule exI [of _ "the_num_gpus v"])
    apply (simp add: loaders v script_def fresh_def)
    done
qed

theorem loaders_kept_apart_witness:
  "(LoadDatasets (PDict [(''name'', PStr ''cifar10''), (''val_split'', PInt 0),
        (''seed'', PInt 42)]) (PInt 2) (PInt 0) (PInt 42),
      Inr (RTriple (PRef 1) (PRef 2) (PRef 3))) \<in> set (log (trace (snd demo_run)))
   \<and> (\<exists>ne lr mc mo wd dir dev me.
         filter (\<lambda>c. PRef 3 \<in> set (args_of c)) (calls (trace (snd demo_run)))
           = [GenEvaluateFn (PRef 3) dev me]
       \<and> filter (\<lambda>c. PRef 1 \<in> set (args_of c)) (calls (trace (snd demo_run)))
           = [GenClientFn (PRef 1) (PRef 2) ne lr mc mo wd dir]
       \<and> filter (\<lambda>c. PRef 2 \<in> set (args_of c)) (calls (trace (snd demo_run)))
           = [GenClientFn (PRef 1) (PRef 2) ne lr mc mo wd dir])
   \<and> loaders_ok (PRef 1) (PRef 2) (PRef 3) (calls (trace (snd demo_run)) ! 3)
   \<and> loaders_ok (PRef 1) (PRef 2) (PRef 3) (calls (trace (snd demo_run)) ! 4)"
proof -
  have mem: "(LoadDatasets (PDict [(''name'', PStr ''cifar10''), (''val_split'', PInt 0),
        (''seed'', PInt 42)]) (PInt 2) (PInt 0) (PInt 42),
      Inr (RTriple (PRef 1) (PRef 2) (PRef 3))) \<in> set (log (trace (snd demo_run)))"
    by code_simp
  have len: "length (calls (trace (snd demo_run))) = 9"
    by code_simp
  have f3: "fresh demo_cfg (trace (snd demo_run)) (PRef 3) \<and> PRef 3 \<noteq> PRef 1
      \<and> PRef 3 \<noteq> PRef 2"
    and f1: "fresh demo_cfg (trace (snd demo_run)) (PRef 1) \<and> PRef 1 \<noteq> PRef 3"
    and f2: "fresh demo_cfg (trace (snd demo_run)) (PRef 2) \<and> PRef 2 \<noteq> PRef 3"
    by code_simp+
  note claim = loaders_kept_apart [OF demo_run_pair]
  from claim [THEN conjunct1, rule_format, OF mem]
  have "list_all (loaders_ok (PRef 1) (PRef 2) (PRef 3)) (calls (trace (snd demo_run)))" .
  with len have roles: "loaders_ok (PRef 1) (PRef 2) (PRef 3) (calls (trace (snd demo_run)) ! 3)"
    "loaders_ok (PRef 1) (PRef 2) (PRef 3) (calls (trace (snd demo_run)) ! 4)"
    by (simp_all add: list_all_length)
  from claim [THEN conjunct2, THEN conjunct2, rule_format, OF demo_run_completes mem]
  obtain ne lr mc mo wd dir dev me
    where te: "fresh demo_cfg (trace (snd demo_run)) (PRef 3) \<and> PRef 3 \<noteq> PRef 1
        \<and> PRef 3 \<noteq> PRef 2 \<longrightarrow>
        filter (\<lambda>c. PRef 3 \<in> set (args_of c)) (calls (trace (snd demo_run)))
          = [GenEvaluateFn (PRef 3) dev me]"
      and tr: "fresh demo_cfg (trace (snd demo_run)) (PRef 1) \<and> PRef 1 \<noteq> PRef 3 \<longrightarrow>
        filter (\<lambda>c. PRef 1 \<in> set (args_of c)) (calls (trace (snd demo_run)))
          = [GenClientFn (PRef 1) (PRef 2) ne lr mc mo wd dir]"
      and vl: "fresh demo_cfg (trace (snd demo_run)) (PRef 2) \<and> PRef 2 \<noteq> PRef 3 \<longrightarrow>
        filter (\<lambda>c. PRef 2 \<in> set (args_of c)) (calls (trace (snd demo_run)))
          = [GenClientFn (PRef 1) (PRef 2) ne lr mc mo wd dir]"
    by (elim exE conjE)
  from te [rule_format, OF f3] tr [rule_format, OF f1] vl [rule_format, OF f2]
  have "\<exists>ne lr mc mo wd dir dev me.
         filter (\<lambda>c. PRef 3 \<in> set (args_of c)) (calls (trace (snd demo_run)))
           = [GenEvaluateFn (PRef 3) dev me]
       \<and> filter (\<lambda>c. PRef 1 \<in> set (args_of c)) (calls (trace (snd demo_run)))
           = [GenClientFn (PRef 1) (PRef 2) ne lr mc mo wd dir]
       \<and> filter (\<lambda>c. PRef 2 \<in> set (args_of c)) (calls (trace (snd demo_run)))
           = [GenClientFn (PRef 1) (PRef 2) ne lr mc mo wd dir]"
    by (intro exI conjI)
  with mem roles show ?thesis
    by (intro conjI)
qed

end
